theory Spec2Isabelle
  imports Complex_Main "HOL-Library.Multiset"
begin

section \<open>Python values: exceptions and \<open>str\<close> of an integer\<close>

text \<open>
  Every exception a handler can raise is a value; a handler returns \<open>exn + 'a\<close>
  (\<open>Inl\<close> the exception that leaves the handler). The string a constructor carries is
  what \<open>str(e)\<close> gives; where the wording is a library's and not the source's, a
  short description stands for it.
\<close>

datatype exn =
    ValueError string
  | KeyError string
  | JSONDecodeError string
  | RequestError string
  | UniqueViolationError string
  | ValidationError string
  | AttributeError string
  | ZeroDivisionError string
  | DataError string

fun str_nat :: "nat \<Rightarrow> string" where
  "str_nat n =
     (if n < 10 then [''0123456789'' ! n]
      else str_nat (n div 10) @ [''0123456789'' ! (n mod 10)])"

declare str_nat.simps [simp del]

definition str_int :: "int \<Rightarrow> string" where
  "str_int i = (if i < 0 then CHR ''-'' # str_nat (nat (- i)) else str_nat (nat i))"

definition str_exn :: "exn \<Rightarrow> string" where
  "str_exn e =
     (case e of
        KeyError k \<Rightarrow> [CHR 0x27] @ k @ [CHR 0x27]
      | ValueError m \<Rightarrow> m
      | JSONDecodeError m \<Rightarrow> m
      | RequestError m \<Rightarrow> m
      | UniqueViolationError m \<Rightarrow> m
      | ValidationError m \<Rightarrow> m
      | AttributeError m \<Rightarrow> m
      | ZeroDivisionError m \<Rightarrow> m
      | DataError m \<Rightarrow> m)"

text \<open>
  \<open>int(s)\<close> on a string, base 10. A character of the string is its code point, and
  this type holds the code points below 256; a string with a higher code point has no
  counterpart here. Surrounding whitespace is dropped: of these code points \<open>int\<close>
  takes 0x09 to 0x0D, the space, 0x85 and 0xA0 as whitespace (not 0x1C to 0x1F). One sign
  is allowed, the digits are \<open>0\<close> to \<open>9\<close> and may be separated by single underscores,
  and a string with more than 4300 digits is refused (the interpreter's default limit).
  \<open>None\<close> is the ValueError Python raises.
\<close>

definition is_space :: "char \<Rightarrow> bool" where
  "is_space c \<longleftrightarrow>
     c \<in> {CHR 0x09, CHR 0x0A, CHR 0x0B, CHR 0x0C, CHR 0x0D, CHR '' '', CHR 0x85, CHR 0xA0}"

definition is_digit :: "char \<Rightarrow> bool" where
  "is_digit c \<longleftrightarrow> c \<in> set ''0123456789''"

definition digit_val :: "char \<Rightarrow> nat" where
  "digit_val c = of_char c - 48"

definition strip :: "string \<Rightarrow> string" where
  "strip s = rev (dropWhile is_space (rev (dropWhile is_space s)))"

fun digits_val :: "string \<Rightarrow> bool \<Rightarrow> nat \<Rightarrow> nat option" where
  "digits_val [] after_digit acc = (if after_digit then Some acc else None)"
| "digits_val (c # cs) after_digit acc =
     (if is_digit c then digits_val cs True (acc * 10 + digit_val c)
      else if c = CHR ''_'' \<and> after_digit then digits_val cs False acc
      else None)"

definition int_max_str_digits :: nat where
  "int_max_str_digits = 4300"

definition py_int :: "string \<Rightarrow> int option" where
  "py_int s =
     (case strip s of
        [] \<Rightarrow> None
      | c # cs \<Rightarrow>
          if int_max_str_digits < length (filter is_digit (c # cs)) then None
          else if c = CHR ''-'' then map_option (\<lambda>n. - int n) (digits_val cs False 0)
          else if c = CHR ''+'' then map_option int (digits_val cs False 0)
          else map_option int (digits_val (c # cs) False 0))"

section \<open>The persistence gateway\<close>

text \<open>
  Modelled from the spec: the Prisma schema and the generated client are not among the
  source files. The spec's data model gives the record kinds and their keys: a User has
  an id, a unique email, a hashed password and a role of ADMIN, USER or GUEST; an Emoji
  has an id, a unique character and a meaning; a Feedback has an id, the ids of its user
  and its emoji, a content, a creation time and a reviewed flag. A table is the list of
  its rows in insertion order.
\<close>

datatype Role = ADMIN | USER | GUEST

record User =
  u_id :: int
  email :: string
  password :: string
  role :: Role

record Emoji =
  e_id :: int
  character :: string
  meaning :: string

record Feedback =
  f_id :: int
  userId :: int
  emojiId :: int
  content :: string
  createdAt :: int
  reviewed :: bool

record db =
  users :: "User list"
  emojis :: "Emoji list"
  feedbacks :: "Feedback list"

text \<open>
  Modelled from the spec: the gateway's operations (find by unique key, find many with
  filter, order and window, create, delete, count). \<open>create\<close> on the Emoji table enforces
  the unique character and raises on a conflict; \<open>delete\<close> gives the deleted row, or
  \<open>None\<close> when there is none; a new row gets the next id.
\<close>

definition next_id :: "int list \<Rightarrow> int" where
  "next_id ids = fold max ids 0 + 1"

definition Emoji_find_unique :: "db \<Rightarrow> string \<Rightarrow> Emoji option" where
  "Emoji_find_unique d c = find (\<lambda>e. character e = c) (emojis d)"

definition Emoji_find_by_id :: "db \<Rightarrow> int \<Rightarrow> Emoji option" where
  "Emoji_find_by_id d i = find (\<lambda>e. e_id e = i) (emojis d)"

definition Emoji_create :: "db \<Rightarrow> string \<Rightarrow> string \<Rightarrow> exn + (Emoji \<times> db)" where
  "Emoji_create d c m =
     (if c \<in> set (map character (emojis d))
      then Inl (UniqueViolationError ''Unique constraint failed on the fields: (character)'')
      else (let e = \<lparr>e_id = next_id (map e_id (emojis d)), character = c, meaning = m\<rparr>
            in Inr (e, d\<lparr>emojis := emojis d @ [e]\<rparr>)))"

definition User_find_unique :: "db \<Rightarrow> int \<Rightarrow> User option" where
  "User_find_unique d i = find (\<lambda>u. u_id u = i) (users d)"

definition User_find_first :: "db \<Rightarrow> string \<Rightarrow> User option" where
  "User_find_first d e = find (\<lambda>u. email u = e) (users d)"

definition User_delete :: "db \<Rightarrow> int \<Rightarrow> User option \<times> db" where
  "User_delete d i =
     (User_find_unique d i, d\<lparr>users := filter (\<lambda>u. u_id u \<noteq> i) (users d)\<rparr>)"

definition Feedback_find_unique :: "db \<Rightarrow> int \<Rightarrow> Feedback option" where
  "Feedback_find_unique d i = find (\<lambda>f. f_id f = i) (feedbacks d)"

definition Feedback_delete :: "db \<Rightarrow> int \<Rightarrow> Feedback option \<times> db" where
  "Feedback_delete d i =
     (Feedback_find_unique d i, d\<lparr>feedbacks := filter (\<lambda>f. f_id f \<noteq> i) (feedbacks d)\<rparr>)"

definition Feedback_count :: "db \<Rightarrow> int" where
  "Feedback_count d = int (length (feedbacks d))"

text \<open>\<open>order={"createdAt": "desc"}\<close>: newest first, rows of one creation time in table order.\<close>

definition newest_first :: "Feedback list \<Rightarrow> Feedback list" where
  "newest_first fs = sort_key (\<lambda>f. - createdAt f) fs"

text \<open>
  \<open>find_many(skip, take, order)\<close>: a negative \<open>skip\<close> is refused; a negative \<open>take\<close> counts
  the window from the end of the ordering.
\<close>

definition window :: "int \<Rightarrow> int \<Rightarrow> 'a list \<Rightarrow> exn + 'a list" where
  "window skip' take' xs =
     (if skip' < 0 then Inl (DataError ''Invalid value for skip argument'')
      else if 0 \<le> take' then Inr (take (nat take') (drop (nat skip') xs))
      else Inr (rev (take (nat (- take')) (drop (nat skip') (rev xs)))))"

definition Feedback_find_many_page :: "db \<Rightarrow> int \<Rightarrow> int \<Rightarrow> exn + (Feedback \<times> User option) list" where
  "Feedback_find_many_page d skip' take' =
     (case window skip' take' (newest_first (feedbacks d)) of
        Inl e \<Rightarrow> Inl e
      | Inr fs \<Rightarrow> Inr (map (\<lambda>f. (f, User_find_unique d (userId f))) fs))"

definition Feedback_find_many_of_user :: "db \<Rightarrow> int \<Rightarrow> (Feedback \<times> Emoji option) list" where
  "Feedback_find_many_of_user d uid =
     map (\<lambda>f. (f, Emoji_find_by_id d (emojiId f)))
       (newest_first (filter (\<lambda>f. userId f = uid) (feedbacks d)))"

section \<open>The external provider (httpx)\<close>

text \<open>
  A request is the method with its URL (and the JSON body of a POST). The provider is a
  function from the request to what \<open>await client.get/post\<close> does: it raises
  \<open>httpx.RequestError\<close> (timeout, connection failure), which carries the URL of its
  request and its message, or it returns a response. A response has its status code, its
  text (\<open>body_text\<close>), and what \<open>response.json()\<close> gives: the JSON object of the body as a
  dictionary, or the message of the error \<open>json()\<close> raises when the body does not parse.
  Bodies that are JSON but not an object of strings are outside this model.
\<close>

datatype request =
    Get string
  | Post string "(string \<times> string) list"

record response =
  status_code :: int
  body_text :: string
  json :: "string + (string \<rightharpoonup> string)"

datatype http_result =
    Raises string string
  | Responds response

type_synonym provider = "request \<Rightarrow> http_result"

text \<open>\<open>raise_for_status()\<close> raises \<open>HTTPStatusError\<close> unless the status is a 2xx.\<close>

definition is_success :: "int \<Rightarrow> bool" where
  "is_success s \<longleftrightarrow> 200 \<le> s \<and> s \<le> 299"

text \<open>
  The provider answers a request with status 200 and a JSON object that has the value
  \<open>m\<close> under \<open>field\<close>; the provider call fails for a handler that reads \<open>field\<close>:
  it raises, or the status is no 2xx, or the body does not parse, or the object lacks
  the field.
\<close>

definition answers_with :: "provider \<Rightarrow> request \<Rightarrow> string \<Rightarrow> string \<Rightarrow> bool" where
  "answers_with provider req field m =
     (case provider req of
        Raises u e \<Rightarrow> False
      | Responds r \<Rightarrow>
          status_code r = 200 \<and>
          (case json r of Inl e \<Rightarrow> False | Inr obj \<Rightarrow> obj field = Some m))"

definition fails_for :: "provider \<Rightarrow> request \<Rightarrow> string \<Rightarrow> bool" where
  "fails_for provider req field =
     (case provider req of
        Raises u e \<Rightarrow> True
      | Responds r \<Rightarrow>
          \<not> is_success (status_code r) \<or>
          (case json r of Inl e \<Rightarrow> True | Inr obj \<Rightarrow> obj field = None))"

text \<open>
  What a handler that talks to the provider leaves behind: its result, the store after
  it, and the requests it sent to the provider, in order.
\<close>

record 'a outcome =
  result :: "exn + 'a"
  db_after :: db
  calls :: "request list"

section \<open>Status check\<close>

datatype GetApiStatusRequest = GetApiStatusRequest

text \<open>\<open>GetApiStatusResponse(status_code, message)\<close>.\<close>

datatype GetApiStatusResponse = GetApiStatusResponse int string

definition checkApiStatus :: "provider \<Rightarrow> GetApiStatusRequest \<Rightarrow> exn + GetApiStatusResponse" where
  "checkApiStatus provider request =
     (let url = ''https://console.groq.com/api/status'' in
      case provider (Get url) of
        Responds r \<Rightarrow>
          (let message =
             (if status_code r = 200 then ''API is operational.''
              else ''API is experiencing issues.'')
           in Inr (GetApiStatusResponse (status_code r) message))
      | Raises u e \<Rightarrow> Inr (GetApiStatusResponse 503 e))"

definition status_provider :: "int \<Rightarrow> provider" where
  "status_provider s req =
     Responds \<lparr>status_code = s, body_text = [], json = Inl ''Expecting value''\<rparr>"

definition unreachable_provider :: provider where
  "unreachable_provider req =
     Raises ''https://console.groq.com/api/status'' ''All connection attempts failed''"

section \<open>The emoji-meaning endpoints\<close>

text \<open>
  A handler is suspended while it awaits the provider, and other requests run meanwhile.
  The handlers that write to the store take \<open>others\<close>, what those requests did to the
  store during that await; \<open>id\<close> is a handler running alone.
\<close>

text \<open>\<open>EmojiExplainerResponse(emoji, explanation)\<close>.\<close>

datatype EmojiExplainerResponse = EmojiExplainerResponse string string

definition fetchEmojiMeaning ::
  "provider \<Rightarrow> (db \<Rightarrow> db) \<Rightarrow> db \<Rightarrow> string \<Rightarrow> EmojiExplainerResponse outcome" where
  "fetchEmojiMeaning provider others d emoji =
     (case Emoji_find_unique d emoji of
        Some stored_emoji \<Rightarrow>
          \<lparr>result = Inr (EmojiExplainerResponse emoji (meaning stored_emoji)),
           db_after = d, calls = []\<rparr>
      | None \<Rightarrow>
          (let api_url = ''https://api.groq.com/emoji?char='' @ emoji;
               d1 = others d
           in case provider (Get api_url) of
                Raises u e \<Rightarrow>
                  \<lparr>result = Inl (ValueError (''Network Error: '' @ u @ '' - '' @ e)),
                   db_after = d1, calls = [Get api_url]\<rparr>
              | Responds r \<Rightarrow>
                  if \<not> is_success (status_code r) then
                    \<lparr>result = Inl (ValueError (''HTTP Error occurred: ''
                        @ str_int (status_code r) @ '' - '' @ body_text r)),
                     db_after = d1, calls = [Get api_url]\<rparr>
                  else
                    (case json r of
                       Inl e \<Rightarrow>
                         \<lparr>result = Inl (ValueError (''An error occurred: '' @ e)),
                          db_after = d1, calls = [Get api_url]\<rparr>
                     | Inr result_data \<Rightarrow>
                         (case result_data ''explanation'' of
                            None \<Rightarrow>
                              \<lparr>result = Inl (ValueError (''An error occurred: ''
                                  @ str_exn (KeyError ''explanation''))),
                               db_after = d1, calls = [Get api_url]\<rparr>
                          | Some meaning' \<Rightarrow>
                              (case Emoji_create d1 emoji meaning' of
                                 Inl e \<Rightarrow>
                                   \<lparr>result = Inl (ValueError (''An error occurred: '' @ str_exn e)),
                                    db_after = d1, calls = [Get api_url]\<rparr>
                               | Inr (new_emoji, d2) \<Rightarrow>
                                   \<lparr>result = Inr (EmojiExplainerResponse emoji (meaning new_emoji)),
                                    db_after = d2, calls = [Get api_url]\<rparr>)))))"

text \<open>\<open>EmojiInterpretationResponse(meaning)\<close>.\<close>

datatype EmojiInterpretationResponse = EmojiInterpretationResponse string

definition interpretEmoji ::
  "provider \<Rightarrow> (db \<Rightarrow> db) \<Rightarrow> db \<Rightarrow> string \<Rightarrow> EmojiInterpretationResponse outcome" where
  "interpretEmoji provider others d emoji =
     (let url = ''https://console.groq.com/api/interpret'';
          body = [(''emoji'', emoji)];
          d1 = others d
      in case provider (Post url body) of
           Raises u e \<Rightarrow>
             \<lparr>result = Inl (RequestError e), db_after = d1, calls = [Post url body]\<rparr>
         | Responds r \<Rightarrow>
             if status_code r = 200 then
               (case json r of
                  Inl e \<Rightarrow>
                    \<lparr>result = Inl (JSONDecodeError e), db_after = d1, calls = [Post url body]\<rparr>
                | Inr data \<Rightarrow>
                    (let meaning' =
                       (case data ''meaning'' of
                          Some m \<Rightarrow> m
                        | None \<Rightarrow> ''No interpretation found.'')
                     in case Emoji_create d1 emoji meaning' of
                          Inr (emoji_entry, d2) \<Rightarrow>
                            \<lparr>result = Inr (EmojiInterpretationResponse meaning'),
                             db_after = d2, calls = [Post url body]\<rparr>
                        | Inl e \<Rightarrow>
                            (let meaning'' =
                               (case Emoji_find_unique d1 emoji of
                                  Some emoji_entry \<Rightarrow> meaning emoji_entry
                                | None \<Rightarrow> meaning')
                             in \<lparr>result = Inr (EmojiInterpretationResponse meaning''),
                                 db_after = d1, calls = [Post url body]\<rparr>)))
             else
               \<lparr>result = Inr (EmojiInterpretationResponse ''Failed to interpret the emoji.''),
                db_after = d1, calls = [Post url body]\<rparr>)"

text \<open>
  \<open>EmojiExplainResponse(meaning, error)\<close>. The handler has no access to the store: the
  store after it is the store before it.
\<close>

datatype EmojiExplainResponse = EmojiExplainResponse string "string option"

definition explainEmoji :: "provider \<Rightarrow> db \<Rightarrow> string \<Rightarrow> EmojiExplainResponse outcome" where
  "explainEmoji provider d emoji_character =
     (let emoji_api_url = ''https://console.groq.com/api/emoji'';
          req = Post emoji_api_url [(''emoji'', emoji_character)]
      in case provider req of
           Raises u e \<Rightarrow>
             \<lparr>result = Inr (EmojiExplainResponse []
                 (Some ''Failed to connect to the GROQ server.'')),
              db_after = d, calls = [req]\<rparr>
         | Responds r \<Rightarrow>
             if \<not> is_success (status_code r) then
               \<lparr>result = Inr (EmojiExplainResponse []
                   (Some ''Invalid response from the server.'')),
                db_after = d, calls = [req]\<rparr>
             else
               (case json r of
                  Inl e \<Rightarrow>
                    \<lparr>result = Inr (EmojiExplainResponse [] (Some e)),
                     db_after = d, calls = [req]\<rparr>
                | Inr data \<Rightarrow>
                    (case data ''meaning'' of
                       Some m \<Rightarrow>
                         \<lparr>result = Inr (EmojiExplainResponse m None),
                          db_after = d, calls = [req]\<rparr>
                     | None \<Rightarrow>
                         \<lparr>result = Inr (EmojiExplainResponse []
                             (Some ''Meaning not found for the provided emoji.'')),
                          db_after = d, calls = [req]\<rparr>)))"

section \<open>Feedback\<close>

text \<open>\<open>FeedbackDetail(id, content, userEmail, createdAt)\<close> and
  \<open>GetFeedbackResponse(feedbacks, totalPages, currentPage)\<close>.\<close>

datatype FeedbackDetail = FeedbackDetail int string string int

datatype GetFeedbackResponse = GetFeedbackResponse "FeedbackDetail list" int int

text \<open>The comprehension over the fetched rows; \<open>record.user.email\<close> raises when the row
  has no user.\<close>

fun feedback_details :: "(Feedback \<times> User option) list \<Rightarrow> exn + FeedbackDetail list" where
  "feedback_details [] = Inr []"
| "feedback_details ((record, user) # rest) =
     (case user of
        None \<Rightarrow> Inl (AttributeError ''NoneType object has no attribute email'')
      | Some u \<Rightarrow>
          (case feedback_details rest of
             Inl e \<Rightarrow> Inl e
           | Inr ds \<Rightarrow>
               Inr (FeedbackDetail (f_id record) (content record) (email u) (createdAt record) # ds)))"

definition fetchFeedback :: "db \<Rightarrow> int \<Rightarrow> int \<Rightarrow> exn + GetFeedbackResponse" where
  "fetchFeedback d page limit =
     (let skip' = (page - 1) * limit in
      case Feedback_find_many_page d skip' limit of
        Inl e \<Rightarrow> Inl e
      | Inr feedback_records \<Rightarrow>
          (let total_feedback_count = Feedback_count d in
           if limit = 0 then Inl (ZeroDivisionError ''integer division or modulo by zero'')
           else
             (let total_pages = (total_feedback_count + limit - 1) div limit in
              case feedback_details feedback_records of
                Inl e \<Rightarrow> Inl e
              | Inr details \<Rightarrow> Inr (GetFeedbackResponse details total_pages page))))"

text \<open>\<open>DeleteFeedbackResponse(success, message)\<close>.\<close>

datatype DeleteFeedbackResponse = DeleteFeedbackResponse bool string

definition deleteFeedback :: "db \<Rightarrow> int \<Rightarrow> DeleteFeedbackResponse \<times> db" where
  "deleteFeedback d feedbackId =
     (case Feedback_find_unique d feedbackId of
        None \<Rightarrow>
          (DeleteFeedbackResponse False (''No feedback found with ID '' @ str_int feedbackId), d)
      | Some feedback \<Rightarrow>
          if reviewed feedback then
            (DeleteFeedbackResponse False
               (''Feedback '' @ str_int feedbackId @ '' has been reviewed and cannot be deleted''), d)
          else
            (case Feedback_delete d feedbackId of
               (Some delete_result, d') \<Rightarrow>
                 (DeleteFeedbackResponse True
                    (''Feedback '' @ str_int feedbackId @ '' successfully deleted.''), d')
             | (None, d') \<Rightarrow>
                 (DeleteFeedbackResponse False ''Deletion failed due to a server error.'', d')))"

section \<open>Users\<close>

text \<open>\<open>DeleteUserResponse(message, status)\<close>.\<close>

datatype DeleteUserResponse = DeleteUserResponse string int

definition deleteUser :: "db \<Rightarrow> string \<Rightarrow> (exn + DeleteUserResponse) \<times> db" where
  "deleteUser d userId' =
     (case py_int userId' of
        None \<Rightarrow> (Inl (ValueError ''invalid literal for int() with base 10''), d)
      | Some uid \<Rightarrow>
          (case User_find_unique d uid of
             None \<Rightarrow> (Inr (DeleteUserResponse ''User not found.'' 404), d)
           | Some user \<Rightarrow>
               if role user \<noteq> ADMIN then
                 (Inr (DeleteUserResponse
                    ''Unauthorized access. Only admin users can delete accounts.'' 403), d)
               else
                 (Inr (DeleteUserResponse ''User successfully deleted.'' 200),
                  snd (User_delete d uid))))"

section \<open>History\<close>

datatype HistoryRequest = HistoryRequest

text \<open>\<open>EmojiDetails(emoji, meaning)\<close> and \<open>HistoryResponse(recent_emojis)\<close>.\<close>

datatype EmojiDetails = EmojiDetails string string

datatype HistoryResponse = HistoryResponse "EmojiDetails list"

text \<open>The comprehension over the fetched rows; \<open>f.emoji.character\<close> raises when the row
  has no emoji.\<close>

fun emoji_details :: "(Feedback \<times> Emoji option) list \<Rightarrow> exn + EmojiDetails list" where
  "emoji_details [] = Inr []"
| "emoji_details ((f, emoji) # rest) =
     (case emoji of
        None \<Rightarrow> Inl (AttributeError ''NoneType object has no attribute character'')
      | Some e \<Rightarrow>
          (case emoji_details rest of
             Inl x \<Rightarrow> Inl x
           | Inr ds \<Rightarrow> Inr (EmojiDetails (character e) (meaning e) # ds)))"

definition getHistory :: "db \<Rightarrow> HistoryRequest \<Rightarrow> exn + HistoryResponse" where
  "getHistory d request =
     (let user_id = 1;
          feedbacks' = Feedback_find_many_of_user d user_id
      in case emoji_details feedbacks' of
           Inl e \<Rightarrow> Inl e
         | Inr recent_emojis \<Rightarrow> Inr (HistoryResponse recent_emojis))"

section \<open>Login\<close>

text \<open>
  The payload of the token, \<open>{"user_id": user.id, "role": user.role.name}\<close>. Password
  hashing (\<open>bcrypt.verify\<close>) and token signing (\<open>jwt.encode\<close>) are primitives of
  libraries: the handler takes them as parameters.
\<close>

datatype jwt_payload = Payload int string

definition Role_name :: "Role \<Rightarrow> string" where
  "Role_name r = (case r of ADMIN \<Rightarrow> ''ADMIN'' | USER \<Rightarrow> ''USER'' | GUEST \<Rightarrow> ''GUEST'')"

text \<open>
  \<open>class Role(Enum)\<close> of the login module is the type of \<open>UserDetails.role\<close>. Its
  docstring names the roles ADMIN, USER and GUEST; its body is \<open>pass\<close>, so it declares
  no member.
\<close>

definition login_Role_members :: "Role list" where
  "login_Role_members = []"

text \<open>
  \<open>UserDetails(email, role)\<close>: constructing the model validates \<open>role\<close> against the
  enum the field is declared with, and a value that is no member of it raises
  \<open>ValidationError\<close>. \<open>LoginResponse(jwt, userDetails)\<close>.
\<close>

datatype UserDetails = UserDetails string Role

datatype LoginResponse = LoginResponse string UserDetails

definition UserDetails_init :: "string \<Rightarrow> Role \<Rightarrow> exn + UserDetails" where
  "UserDetails_init email' role' =
     (if role' \<in> set login_Role_members then Inr (UserDetails email' role')
      else Inl (ValidationError ''1 validation error for UserDetails: role''))"

definition userLogin ::
  "(string \<Rightarrow> string \<Rightarrow> bool) \<Rightarrow> (jwt_payload \<Rightarrow> string \<Rightarrow> string) \<Rightarrow> db \<Rightarrow> string \<Rightarrow> string
     \<Rightarrow> exn + LoginResponse" where
  "userLogin bcrypt_verify jwt_encode d email' password' =
     (case User_find_first d email' of
        None \<Rightarrow> Inl (ValueError ''Invalid email or password'')
      | Some user \<Rightarrow>
          if \<not> bcrypt_verify password' (password user)
          then Inl (ValueError ''Invalid email or password'')
          else
            (let jwt_token =
               jwt_encode (Payload (u_id user) (Role_name (role user))) ''secret_key''
             in case UserDetails_init (email user) (role user) of
                  Inl e \<Rightarrow> Inl e
                | Inr user_details \<Rightarrow> Inr (LoginResponse jwt_token user_details)))"

section \<open>What a joined row is\<close>

text \<open>A feedback detail carries the email of the user the row refers to; an emoji detail
  carries the character and the meaning of the emoji the row refers to.\<close>

definition joined_detail :: "db \<Rightarrow> Feedback \<Rightarrow> FeedbackDetail \<Rightarrow> bool" where
  "joined_detail d f det =
     (case User_find_unique d (userId f) of
        None \<Rightarrow> False
      | Some u \<Rightarrow> det = FeedbackDetail (f_id f) (content f) (email u) (createdAt f))"

definition joined_emoji :: "db \<Rightarrow> Feedback \<Rightarrow> EmojiDetails \<Rightarrow> bool" where
  "joined_emoji d f det =
     (case Emoji_find_by_id d (emojiId f) of
        None \<Rightarrow> False
      | Some e \<Rightarrow> det = EmojiDetails (character e) (meaning e))"

section \<open>Concrete stores and providers\<close>

definition sample_db :: db where
  "sample_db =
     \<lparr>users =
        [\<lparr>u_id = 1, email = ''a@x.com'', password = ''wp'', role = USER\<rparr>,
         \<lparr>u_id = 2, email = ''root@x.com'', password = ''toor'', role = ADMIN\<rparr>],
      emojis =
        [\<lparr>e_id = 1, character = '':)'', meaning = ''grinning face''\<rparr>,
         \<lparr>e_id = 2, character = ''<3'', meaning = ''red heart''\<rparr>],
      feedbacks =
        [\<lparr>f_id = 1, userId = 1, emojiId = 1, content = ''nice'', createdAt = 100,
          reviewed = False\<rparr>,
         \<lparr>f_id = 2, userId = 2, emojiId = 2, content = ''fine'', createdAt = 300,
          reviewed = True\<rparr>,
         \<lparr>f_id = 3, userId = 1, emojiId = 2, content = ''love'', createdAt = 200,
          reviewed = False\<rparr>]\<rparr>"

definition empty_db :: db where
  "empty_db = \<lparr>users = [], emojis = [], feedbacks = []\<rparr>"

text \<open>A provider that answers every request with status 200 and the given JSON object.\<close>

definition json_provider :: "(string \<rightharpoonup> string) \<Rightarrow> provider" where
  "json_provider obj req = Responds \<lparr>status_code = 200, body_text = [], json = Inr obj\<rparr>"

definition explanation_provider :: provider where
  "explanation_provider = json_provider [''explanation'' \<mapsto> ''thumbs up'']"

definition meaning_provider :: provider where
  "meaning_provider = json_provider [''meaning'' \<mapsto> ''thumbs up'']"

definition no_field_provider :: provider where
  "no_field_provider = json_provider Map.empty"

text \<open>Another request resolving the same character alone, start to end, while this one
  awaits the provider.\<close>

definition racing_fetch :: "db \<Rightarrow> db" where
  "racing_fetch d = db_after (fetchEmojiMeaning explanation_provider id d ''+1'')"

text \<open>Stand-ins for the library primitives, for running the login on a concrete store.\<close>

definition toy_verify :: "string \<Rightarrow> string \<Rightarrow> bool" where
  "toy_verify pw h \<longleftrightarrow> h = rev pw"

definition toy_encode :: "jwt_payload \<Rightarrow> string \<Rightarrow> string" where
  "toy_encode p k = (case p of Payload uid r \<Rightarrow> str_int uid @ ''.'' @ r @ ''.'' @ k)"

section \<open>Properties\<close>

subsection \<open>Lookups, ordering and rounding\<close>

lemma find_unique_key:
  "distinct (map k xs) \<Longrightarrow> x \<in> set xs \<Longrightarrow> find (\<lambda>y. k y = k x) xs = Some x"
  by (induction xs) (auto simp: image_iff)

lemma find_Some_mem: "find P xs = Some x \<Longrightarrow> x \<in> set xs \<and> P x"
  by (induction xs) (auto split: if_splits)

lemma newest_first_sorted: "sorted_wrt (\<lambda>a b. createdAt b \<le> createdAt a) (newest_first fs)"
proof -
  have "sorted (map (\<lambda>f. - createdAt f) (newest_first fs))"
    unfolding newest_first_def by (rule sorted_sort_key)
  then show ?thesis by (simp add: sorted_map)
qed

lemma newest_first_mset: "mset (newest_first fs) = mset fs"
  by (simp add: newest_first_def)

lemma ceil_div:
  fixes t l :: int
  assumes "1 \<le> l"
  shows "(t + l - 1) div l = \<lceil>real_of_int t / real_of_int l\<rceil>"
proof -
  define q where "q = t div l"
  define r where "r = t mod l"
  have l0: "l \<noteq> 0" and r0: "0 \<le> r" and rl: "r < l"
    using assms by (auto simp: r_def)
  have t: "t = l * q + r"
    by (simp add: q_def r_def)
  have shift: "(t + l - 1) div l = q + (r + l - 1) div l"
  proof -
    have "t + l - 1 = (r + l - 1) + l * q" by (simp add: t)
    then have "(t + l - 1) div l = ((r + l - 1) + l * q) div l" by (rule arg_cong)
    also have "\<dots> = q + (r + l - 1) div l" by (rule div_mult_self2 [OF l0])
    finally show ?thesis .
  qed
  have ceil: "\<lceil>real_of_int t / real_of_int l\<rceil> = (if r = 0 then q else q + 1)"
    using l0 by (simp add: ceiling_divide_eq_div zdiv_zminus1_eq_if q_def r_def)
  show ?thesis
  proof (cases "r = 0")
    case True
    then have "(r + l - 1) div l = 0" using assms by simp
    with True shift ceil show ?thesis by simp
  next
    case False
    have lo: "0 \<le> r - 1" and hi: "r - 1 < l" using False r0 rl by simp_all
    have "r + l - 1 = (r - 1) + 1 * l" by simp
    then have "(r + l - 1) div l = ((r - 1) + 1 * l) div l" by (rule arg_cong)
    also have "\<dots> = 1 + (r - 1) div l" by (rule div_mult_self1 [OF l0])
    also have "(r - 1) div l = 0" using lo hi by (rule div_pos_pos_trivial)
    finally have "(r + l - 1) div l = 1" by simp
    with False shift ceil show ?thesis by simp
  qed
qed

lemma feedback_details_joined:
  "\<forall>f \<in> set fs. User_find_unique d (userId f) \<noteq> None \<Longrightarrow>
   \<exists>ds. feedback_details (map (\<lambda>f. (f, User_find_unique d (userId f))) fs) = Inr ds \<and>
        list_all2 (joined_detail d) fs ds"
  by (induction fs) (auto simp: joined_detail_def)

subsection \<open>The emoji-meaning endpoints\<close>

text \<open>
  C2. When the character has a stored Emoji record (the character is the table's unique
  key), fetchEmojiMeaning returns that record's meaning, leaves the store as it is, and
  sends no request to the provider, whatever the provider would answer.
\<close>

theorem fetchEmojiMeaning_stored:
  assumes "distinct (map character (emojis d))" and "e \<in> set (emojis d)"
  shows "fetchEmojiMeaning provider others d (character e) =
           \<lparr>result = Inr (EmojiExplainerResponse (character e) (meaning e)),
            db_after = d, calls = []\<rparr>"
  using find_unique_key [OF assms] by (simp add: fetchEmojiMeaning_def Emoji_find_unique_def)

theorem fetchEmojiMeaning_stored_witness:
  "fetchEmojiMeaning unreachable_provider id sample_db ''<3'' =
     \<lparr>result = Inr (EmojiExplainerResponse ''<3'' ''red heart''),
      db_after = sample_db, calls = []\<rparr>"
  using fetchEmojiMeaning_stored
    [of sample_db "\<lparr>e_id = 2, character = ''<3'', meaning = ''red heart''\<rparr>"
        unreachable_provider id]
  by (simp add: sample_db_def)

lemma answers_withD:
  "answers_with provider req field m \<Longrightarrow>
   \<exists>r obj. provider req = Responds r \<and> status_code r = 200 \<and> json r = Inr obj \<and>
     obj field = Some m"
  by (auto simp: answers_with_def split: http_result.splits sum.splits)

lemma find_character_Some:
  "c \<in> set (map character es) \<Longrightarrow>
   \<exists>e \<in> set es. character e = c \<and> find (\<lambda>e. character e = c) es = Some e"
  by (induction es) auto

lemma Emoji_create_keeps_unique:
  assumes "distinct (map character (emojis d))" and "Emoji_create d c m = Inr (e, d')"
  shows "distinct (map character (emojis d'))"
  using assms by (auto simp: Emoji_create_def Let_def split: if_splits)

text \<open>
  The creation race. A character that another request stored while this one awaited the
  provider makes the create fail. interpretEmoji reads the stored record again and
  answers with its meaning; fetchEmojiMeaning turns the failure into a ValueError. Both
  leave the other request's record as the only one.
\<close>

lemma interpretEmoji_conflict_rereads:
  assumes "answers_with provider
      (Post ''https://console.groq.com/api/interpret'' [(''emoji'', c)]) ''meaning'' m"
    and "c \<in> set (map character (emojis (others d)))"
  shows "\<exists>e \<in> set (emojis (others d)). character e = c \<and>
           interpretEmoji provider others d c =
             \<lparr>result = Inr (EmojiInterpretationResponse (meaning e)),
              db_after = others d,
              calls = [Post ''https://console.groq.com/api/interpret'' [(''emoji'', c)]]\<rparr>"
  using answers_withD [OF assms(1)] find_character_Some [OF assms(2)] assms(2)
  by (auto simp: interpretEmoji_def Let_def Emoji_create_def Emoji_find_unique_def)

lemma fetchEmojiMeaning_conflict_raises:
  assumes "Emoji_find_unique d c = None"
    and "answers_with provider (Get (''https://api.groq.com/emoji?char='' @ c)) ''explanation'' m"
    and "c \<in> set (map character (emojis (others d)))"
  shows "fetchEmojiMeaning provider others d c =
           \<lparr>result = Inl (ValueError (''An error occurred: ''
               @ ''Unique constraint failed on the fields: (character)'')),
            db_after = others d,
            calls = [Get (''https://api.groq.com/emoji?char='' @ c)]\<rparr>"
  using assms(1,3) answers_withD [OF assms(2)]
  by (auto simp: fetchEmojiMeaning_def Let_def is_success_def Emoji_create_def str_exn_def)

lemma find_character_None:
  "find (\<lambda>e. character e = c) es = None \<longleftrightarrow> c \<notin> set (map character es)"
  by (induction es) auto

text \<open>Alone, a miss with a provider that answers stores one record: the conflict needs
  another request.\<close>

lemma fetchEmojiMeaning_miss_stores:
  assumes "Emoji_find_unique d c = None"
    and "answers_with provider (Get (''https://api.groq.com/emoji?char='' @ c)) ''explanation'' m"
  shows "fetchEmojiMeaning provider id d c =
           \<lparr>result = Inr (EmojiExplainerResponse c m),
            db_after = d\<lparr>emojis := emojis d @
               [\<lparr>e_id = next_id (map e_id (emojis d)), character = c, meaning = m\<rparr>]\<rparr>,
            calls = [Get (''https://api.groq.com/emoji?char='' @ c)]\<rparr>"
proof -
  have "c \<notin> set (map character (emojis d))"
    using assms(1) by (simp add: Emoji_find_unique_def find_character_None)
  then show ?thesis
    using assms(1) answers_withD [OF assms(2)]
    by (auto simp: fetchEmojiMeaning_def Let_def is_success_def Emoji_create_def)
qed

text \<open>Two requests for one new character, the first running to its end while the second
  awaits the provider: the first gets the meaning, the second gets the ValueError, and
  the store holds the character once.\<close>

lemma fetchEmojiMeaning_two_callers:
  assumes miss: "Emoji_find_unique d c = None"
    and ok: "answers_with provider (Get (''https://api.groq.com/emoji?char='' @ c)) ''explanation'' m"
  shows "result (fetchEmojiMeaning provider id d c) = Inr (EmojiExplainerResponse c m)"
    and "result (fetchEmojiMeaning provider
            (\<lambda>x. db_after (fetchEmojiMeaning provider id x c)) d c)
          = Inl (ValueError (''An error occurred: ''
               @ ''Unique constraint failed on the fields: (character)''))"
    and "length (filter (\<lambda>e. character e = c)
            (emojis (db_after (fetchEmojiMeaning provider
               (\<lambda>x. db_after (fetchEmojiMeaning provider id x c)) d c)))) = 1"
proof -
  define first where "first = fetchEmojiMeaning provider id d c"
  define second where
    "second = fetchEmojiMeaning provider (\<lambda>x. db_after (fetchEmojiMeaning provider id x c)) d c"
  have f: "first = \<lparr>result = Inr (EmojiExplainerResponse c m),
            db_after = d\<lparr>emojis := emojis d @
               [\<lparr>e_id = next_id (map e_id (emojis d)), character = c, meaning = m\<rparr>]\<rparr>,
            calls = [Get (''https://api.groq.com/emoji?char='' @ c)]\<rparr>"
    unfolding first_def by (rule fetchEmojiMeaning_miss_stores [OF miss ok])
  then show "result (fetchEmojiMeaning provider id d c) = Inr (EmojiExplainerResponse c m)"
    by (simp add: first_def)
  have stored: "c \<in> set (map character (emojis (db_after (fetchEmojiMeaning provider id d c))))"
    using f by (simp add: first_def)
  have s: "second = \<lparr>result = Inl (ValueError (''An error occurred: ''
               @ ''Unique constraint failed on the fields: (character)'')),
            db_after = db_after (fetchEmojiMeaning provider id d c),
            calls = [Get (''https://api.groq.com/emoji?char='' @ c)]\<rparr>"
    unfolding second_def
    by (rule fetchEmojiMeaning_conflict_raises
        [where others = "\<lambda>x. db_after (fetchEmojiMeaning provider id x c)", OF miss ok stored])
  then show "result (fetchEmojiMeaning provider
            (\<lambda>x. db_after (fetchEmojiMeaning provider id x c)) d c)
          = Inl (ValueError (''An error occurred: ''
               @ ''Unique constraint failed on the fields: (character)''))"
    by (simp add: second_def)
  have "filter (\<lambda>e. character e = c) (emojis d) = []"
    using miss by (auto simp: Emoji_find_unique_def find_character_None filter_empty_conv)
  then have "length (filter (\<lambda>e. character e = c) (emojis (db_after second))) = 1"
    using s f by (simp add: first_def)
  then show "length (filter (\<lambda>e. character e = c)
            (emojis (db_after (fetchEmojiMeaning provider
               (\<lambda>x. db_after (fetchEmojiMeaning provider id x c)) d c)))) = 1"
    by (simp add: second_def)
qed

text \<open>
  C1. The failing run: the store is empty, the provider answers with an explanation, and
  another request resolves the same character while this one awaits the provider.
  fetchEmojiMeaning then raises ValueError to its caller instead of answering with the
  stored meaning. The store holds the one record of the other request.
\<close>

theorem fetchEmojiMeaning_race_raises:
  "fetchEmojiMeaning explanation_provider racing_fetch empty_db ''+1'' =
     \<lparr>result = Inl (ValueError
        ''An error occurred: Unique constraint failed on the fields: (character)''),
      db_after = \<lparr>users = [], emojis = [\<lparr>e_id = 1, character = ''+1'', meaning = ''thumbs up''\<rparr>],
                  feedbacks = []\<rparr>,
      calls = [Get ''https://api.groq.com/emoji?char=+1'']\<rparr>"
  by (simp add: fetchEmojiMeaning_def racing_fetch_def explanation_provider_def json_provider_def
      empty_db_def Emoji_find_unique_def Emoji_create_def is_success_def next_id_def str_exn_def
      Let_def)

text \<open>
  A failed provider call. fetchEmojiMeaning raises ValueError, adds nothing to the store
  and has sent one request; explainEmoji never touches the store and sends one request;
  interpretEmoji sends one request. But interpretEmoji takes a 200 answer without the
  meaning field as a success: it stores its default text as the meaning of the character.
\<close>

lemma fetchEmojiMeaning_failure_frame:
  assumes "Emoji_find_unique d c = None"
    and "fails_for provider (Get (''https://api.groq.com/emoji?char='' @ c)) ''explanation''"
  shows "(\<exists>msg. result (fetchEmojiMeaning provider others d c) = Inl (ValueError msg)) \<and>
         db_after (fetchEmojiMeaning provider others d c) = others d \<and>
         calls (fetchEmojiMeaning provider others d c)
           = [Get (''https://api.groq.com/emoji?char='' @ c)]"
  using assms
  by (auto simp: fetchEmojiMeaning_def fails_for_def Let_def
      split: http_result.splits sum.splits option.splits)

lemma explainEmoji_frame:
  "db_after (explainEmoji provider d c) = d \<and>
   calls (explainEmoji provider d c) = [Post ''https://console.groq.com/api/emoji'' [(''emoji'', c)]]"
  by (simp add: explainEmoji_def Let_def split: http_result.splits sum.splits option.splits)

lemma explainEmoji_failure:
  assumes "fails_for provider (Post ''https://console.groq.com/api/emoji'' [(''emoji'', c)]) ''meaning''"
  shows "\<exists>msg. result (explainEmoji provider d c) = Inr (EmojiExplainResponse [] (Some msg))"
  using assms
  by (auto simp: explainEmoji_def fails_for_def Let_def
      split: http_result.splits sum.splits option.splits)

lemma interpretEmoji_calls:
  "calls (interpretEmoji provider others d c)
     = [Post ''https://console.groq.com/api/interpret'' [(''emoji'', c)]]"
  by (simp add: interpretEmoji_def Let_def
      split: http_result.splits sum.splits option.splits prod.splits)

lemma interpretEmoji_unreachable_or_refused:
  assumes "provider (Post ''https://console.groq.com/api/interpret'' [(''emoji'', c)]) = h"
  shows "(\<forall>u e. h = Raises u e \<longrightarrow>
            result (interpretEmoji provider others d c) = Inl (RequestError e) \<and>
            db_after (interpretEmoji provider others d c) = others d) \<and>
         (\<forall>r. h = Responds r \<and> status_code r \<noteq> 200 \<longrightarrow>
            result (interpretEmoji provider others d c)
              = Inr (EmojiInterpretationResponse ''Failed to interpret the emoji.'') \<and>
            db_after (interpretEmoji provider others d c) = others d)"
  using assms by (auto simp: interpretEmoji_def Let_def)

lemma interpretEmoji_missing_field_writes:
  assumes "provider (Post ''https://console.groq.com/api/interpret'' [(''emoji'', c)]) = Responds r"
    and "status_code r = 200" and "json r = Inr obj" and "obj ''meaning'' = None"
    and "c \<notin> set (map character (emojis (others d)))"
  shows "interpretEmoji provider others d c =
           \<lparr>result = Inr (EmojiInterpretationResponse ''No interpretation found.''),
            db_after = (others d)\<lparr>emojis := emojis (others d) @
               [\<lparr>e_id = next_id (map e_id (emojis (others d))), character = c,
                 meaning = ''No interpretation found.''\<rparr>]\<rparr>,
            calls = [Post ''https://console.groq.com/api/interpret'' [(''emoji'', c)]]\<rparr>"
  using assms by (simp add: interpretEmoji_def Let_def Emoji_create_def)

text \<open>
  C3. The failing run: the store is empty and the provider answers 200 with a JSON object
  that has no meaning field. interpretEmoji answers as for a success and the store now
  holds a record for the character whose meaning is the default text.
\<close>

theorem interpretEmoji_placeholder_stored:
  "interpretEmoji no_field_provider id empty_db ''+1'' =
     \<lparr>result = Inr (EmojiInterpretationResponse ''No interpretation found.''),
      db_after = \<lparr>users = [],
                  emojis = [\<lparr>e_id = 1, character = ''+1'', meaning = ''No interpretation found.''\<rparr>],
                  feedbacks = []\<rparr>,
      calls = [Post ''https://console.groq.com/api/interpret'' [(''emoji'', ''+1'')]]\<rparr>"
  by (simp add: interpretEmoji_def no_field_provider_def json_provider_def
      empty_db_def Emoji_create_def next_id_def Let_def)

lemma interpretEmoji_new_stores:
  assumes "answers_with provider
      (Post ''https://console.groq.com/api/interpret'' [(''emoji'', c)]) ''meaning'' m"
    and "c \<notin> set (map character (emojis (others d)))"
  shows "interpretEmoji provider others d c =
             \<lparr>result = Inr (EmojiInterpretationResponse m),
              db_after = (others d)\<lparr>emojis := emojis (others d) @
                 [\<lparr>e_id = next_id (map e_id (emojis (others d))), character = c, meaning = m\<rparr>]\<rparr>,
              calls = [Post ''https://console.groq.com/api/interpret'' [(''emoji'', c)]]\<rparr>"
  using answers_withD [OF assms(1)] assms(2)
  by (auto simp: interpretEmoji_def Let_def Emoji_create_def)

lemma explainEmoji_success:
  assumes "answers_with provider
      (Post ''https://console.groq.com/api/emoji'' [(''emoji'', c)]) ''meaning'' m"
  shows "explainEmoji provider d c =
     \<lparr>result = Inr (EmojiExplainResponse m None), db_after = d,
      calls = [Post ''https://console.groq.com/api/emoji'' [(''emoji'', c)]]\<rparr>"
  using answers_withD [OF assms]
  by (auto simp: explainEmoji_def Let_def is_success_def)

text \<open>
  C4, as stated, at a concrete input: the provider answers explainEmoji with a meaning,
  explainEmoji returns it, and the Emoji table is as empty as before.
\<close>

theorem explainEmoji_stores_nothing:
  "result (explainEmoji meaning_provider empty_db ''+1'')
     = Inr (EmojiExplainResponse ''thumbs up'' None) \<and>
   emojis (db_after (explainEmoji meaning_provider empty_db ''+1'')) = []"
  by (simp add: explainEmoji_def meaning_provider_def json_provider_def empty_db_def
      is_success_def Let_def)

text \<open>
  C4, amended. explainEmoji and interpretEmoji read nothing from the store before they
  call the provider: each sends exactly one request, whatever the store holds. On a
  successful answer with a meaning, explainEmoji returns the meaning and leaves the store
  as it is; interpretEmoji stores the meaning as a new Emoji record when the character
  has none, and otherwise keeps the existing record and returns its meaning.
\<close>

theorem store_bypassing_variants:
  "calls (interpretEmoji provider others d c)
     = [Post ''https://console.groq.com/api/interpret'' [(''emoji'', c)]] \<and>
   calls (explainEmoji provider d c)
     = [Post ''https://console.groq.com/api/emoji'' [(''emoji'', c)]] \<and>
   db_after (explainEmoji provider d c) = d \<and>
   (answers_with provider (Post ''https://console.groq.com/api/emoji'' [(''emoji'', c)])
      ''meaning'' m \<longrightarrow>
      result (explainEmoji provider d c) = Inr (EmojiExplainResponse m None)) \<and>
   (answers_with provider (Post ''https://console.groq.com/api/interpret'' [(''emoji'', c)])
      ''meaning'' m \<longrightarrow>
      (c \<notin> set (map character (emojis (others d))) \<longrightarrow>
         result (interpretEmoji provider others d c) = Inr (EmojiInterpretationResponse m) \<and>
         db_after (interpretEmoji provider others d c) =
           (others d)\<lparr>emojis := emojis (others d) @
              [\<lparr>e_id = next_id (map e_id (emojis (others d))), character = c, meaning = m\<rparr>]\<rparr>) \<and>
      (c \<in> set (map character (emojis (others d))) \<longrightarrow>
         db_after (interpretEmoji provider others d c) = others d \<and>
         (\<exists>e \<in> set (emojis (others d)). character e = c \<and>
            result (interpretEmoji provider others d c)
              = Inr (EmojiInterpretationResponse (meaning e)))))"
proof (intro conjI impI)
  show "calls (interpretEmoji provider others d c)
     = [Post ''https://console.groq.com/api/interpret'' [(''emoji'', c)]]"
    by (rule interpretEmoji_calls)
  show "calls (explainEmoji provider d c)
     = [Post ''https://console.groq.com/api/emoji'' [(''emoji'', c)]]"
    and "db_after (explainEmoji provider d c) = d"
    by (simp_all add: explainEmoji_frame)
next
  assume "answers_with provider (Post ''https://console.groq.com/api/emoji'' [(''emoji'', c)])
      ''meaning'' m"
  from explainEmoji_success [OF this]
  show "result (explainEmoji provider d c) = Inr (EmojiExplainResponse m None)" by simp
next
  assume a: "answers_with provider
      (Post ''https://console.groq.com/api/interpret'' [(''emoji'', c)]) ''meaning'' m"
    and new: "c \<notin> set (map character (emojis (others d)))"
  from interpretEmoji_new_stores [where others = others and d = d, OF a new]
  show "result (interpretEmoji provider others d c) = Inr (EmojiInterpretationResponse m)"
    and "db_after (interpretEmoji provider others d c) =
           (others d)\<lparr>emojis := emojis (others d) @
              [\<lparr>e_id = next_id (map e_id (emojis (others d))), character = c, meaning = m\<rparr>]\<rparr>"
    by simp_all
next
  assume a: "answers_with provider
      (Post ''https://console.groq.com/api/interpret'' [(''emoji'', c)]) ''meaning'' m"
    and old: "c \<in> set (map character (emojis (others d)))"
  from interpretEmoji_conflict_rereads [where others = others and d = d, OF a old]
  show "db_after (interpretEmoji provider others d c) = others d"
    and "\<exists>e \<in> set (emojis (others d)). character e = c \<and>
            result (interpretEmoji provider others d c)
              = Inr (EmojiInterpretationResponse (meaning e))"
    by auto
qed

theorem store_bypassing_variants_witness:
  "result (interpretEmoji meaning_provider id empty_db ''+1'')
     = Inr (EmojiInterpretationResponse ''thumbs up'') \<and>
   db_after (interpretEmoji meaning_provider id empty_db ''+1'')
     = \<lparr>users = [], emojis = [\<lparr>e_id = 1, character = ''+1'', meaning = ''thumbs up''\<rparr>],
        feedbacks = []\<rparr> \<and>
   result (interpretEmoji meaning_provider id sample_db ''<3'')
     = Inr (EmojiInterpretationResponse ''red heart'') \<and>
   db_after (interpretEmoji meaning_provider id sample_db ''<3'') = sample_db \<and>
   result (explainEmoji meaning_provider empty_db ''+1'')
     = Inr (EmojiExplainResponse ''thumbs up'' None) \<and>
   db_after (explainEmoji meaning_provider empty_db ''+1'') = empty_db"
proof -
  have a: "answers_with meaning_provider req ''meaning'' ''thumbs up''" for req
    by (simp add: answers_with_def meaning_provider_def json_provider_def)
  have new: "result (interpretEmoji meaning_provider id empty_db ''+1'')
       = Inr (EmojiInterpretationResponse ''thumbs up'') \<and>
     db_after (interpretEmoji meaning_provider id empty_db ''+1'')
       = \<lparr>users = [], emojis = [\<lparr>e_id = 1, character = ''+1'', meaning = ''thumbs up''\<rparr>],
          feedbacks = []\<rparr> \<and>
     result (explainEmoji meaning_provider empty_db ''+1'')
       = Inr (EmojiExplainResponse ''thumbs up'' None) \<and>
     db_after (explainEmoji meaning_provider empty_db ''+1'') = empty_db"
    using store_bypassing_variants [of meaning_provider id empty_db "''+1''" "''thumbs up''"] a
    by (simp add: empty_db_def next_id_def)
  have old: "result (interpretEmoji meaning_provider id sample_db ''<3'')
       = Inr (EmojiInterpretationResponse ''red heart'') \<and>
     db_after (interpretEmoji meaning_provider id sample_db ''<3'') = sample_db"
    using store_bypassing_variants [of meaning_provider id sample_db "''<3''" "''thumbs up''"] a
    by (auto simp: sample_db_def)
  from new old show ?thesis by simp
qed

subsection \<open>Feedback\<close>

text \<open>
  C5. For a page number of at least 1 and a page size of at least 1, on a store whose
  feedback rows all refer to a user, fetchFeedback returns the rows of the newest-first
  ordering that follow the first (page - 1) * limit ones, at most limit of them, each with
  the email of its user, and totalPages is the ceiling of the feedback count divided by
  the page size. The newest-first ordering is a rearrangement of the table whose creation
  times never increase.
\<close>

theorem fetchFeedback_page:
  assumes "1 \<le> page" and "1 \<le> limit"
    and fk: "\<forall>f \<in> set (feedbacks d). User_find_unique d (userId f) \<noteq> None"
  shows "\<exists>details.
           fetchFeedback d page limit =
             Inr (GetFeedbackResponse details
                    \<lceil>real_of_int (Feedback_count d) / real_of_int limit\<rceil> page) \<and>
           list_all2 (joined_detail d)
             (take (nat limit) (drop (nat ((page - 1) * limit)) (newest_first (feedbacks d))))
             details \<and>
           length details \<le> nat limit \<and>
           sorted_wrt (\<lambda>a b. createdAt b \<le> createdAt a) (newest_first (feedbacks d)) \<and>
           mset (newest_first (feedbacks d)) = mset (feedbacks d)"
proof -
  let ?rows = "take (nat limit) (drop (nat ((page - 1) * limit)) (newest_first (feedbacks d)))"
  have skip: "0 \<le> (page - 1) * limit" using assms(1,2) by simp
  have "set ?rows \<subseteq> set (newest_first (feedbacks d))"
    by (meson set_take_subset set_drop_subset subset_trans)
  also have "\<dots> = set (feedbacks d)"
    by (metis newest_first_mset set_mset_mset)
  finally have "\<forall>f \<in> set ?rows. User_find_unique d (userId f) \<noteq> None"
    using fk by blast
  from feedback_details_joined [OF this] obtain ds where
    ds: "feedback_details (map (\<lambda>f. (f, User_find_unique d (userId f))) ?rows) = Inr ds"
    and joined: "list_all2 (joined_detail d) ?rows ds"
    by blast
  have page: "Feedback_find_many_page d ((page - 1) * limit) limit
      = Inr (map (\<lambda>f. (f, User_find_unique d (userId f))) ?rows)"
    using skip assms(2) by (simp add: Feedback_find_many_page_def window_def)
  have res: "fetchFeedback d page limit =
      Inr (GetFeedbackResponse ds ((Feedback_count d + limit - 1) div limit) page)"
    using assms(2) by (simp add: fetchFeedback_def page ds)
  have len: "length ds \<le> nat limit"
    using list_all2_lengthD [OF joined] by simp
  show ?thesis
    using res joined len newest_first_sorted newest_first_mset ceil_div [OF assms(2)]
    by auto
qed

theorem fetchFeedback_page_witness:
  "fetchFeedback sample_db 2 2 =
     Inr (GetFeedbackResponse [FeedbackDetail 1 ''nice'' ''a@x.com'' 100] 2 2)"
proof -
  have fk: "\<forall>f \<in> set (feedbacks sample_db). User_find_unique sample_db (userId f) \<noteq> None"
    by (simp add: sample_db_def User_find_unique_def)
  obtain details where
    res: "fetchFeedback sample_db 2 2 =
       Inr (GetFeedbackResponse details
              \<lceil>real_of_int (Feedback_count sample_db) / real_of_int 2\<rceil> 2)"
    and rows: "list_all2 (joined_detail sample_db)
       (take (nat 2) (drop (nat ((2 - 1) * 2)) (newest_first (feedbacks sample_db)))) details"
    using fetchFeedback_page [OF _ _ fk, of 2 2] by auto
  have "details = [FeedbackDetail 1 ''nice'' ''a@x.com'' 100]"
    using rows
    by (simp add: sample_db_def newest_first_def joined_detail_def User_find_unique_def
        list_all2_Cons1)
  moreover have "\<lceil>real_of_int (Feedback_count sample_db) / real_of_int 2\<rceil> = 2"
    by (simp add: Feedback_count_def sample_db_def)
  ultimately show ?thesis using res by simp
qed

text \<open>
  C6. On a store whose feedback ids are unique, deleting a feedback row whose reviewed
  flag is set answers with the has-been-reviewed failure and leaves the store as it is;
  deleting a row whose flag is not set succeeds and removes the row; and whenever a
  deletion succeeds, the row it removed was not reviewed.
\<close>

theorem deleteFeedback_reviewed:
  assumes "distinct (map f_id (feedbacks d))"
  shows "(\<forall>f \<in> set (feedbacks d). reviewed f \<longrightarrow>
            deleteFeedback d (f_id f) =
              (DeleteFeedbackResponse False
                 (''Feedback '' @ str_int (f_id f) @ '' has been reviewed and cannot be deleted''),
               d)) \<and>
         (\<forall>f \<in> set (feedbacks d). \<not> reviewed f \<longrightarrow>
            deleteFeedback d (f_id f) =
              (DeleteFeedbackResponse True
                 (''Feedback '' @ str_int (f_id f) @ '' successfully deleted.''),
               d\<lparr>feedbacks := filter (\<lambda>g. f_id g \<noteq> f_id f) (feedbacks d)\<rparr>)) \<and>
         (\<forall>feedbackId msg d'.
            deleteFeedback d feedbackId = (DeleteFeedbackResponse True msg, d') \<longrightarrow>
              (\<exists>f \<in> set (feedbacks d). f_id f = feedbackId \<and> \<not> reviewed f \<and>
                 feedbacks d' = filter (\<lambda>g. f_id g \<noteq> feedbackId) (feedbacks d)))"
proof (intro conjI ballI allI impI)
  fix f assume "f \<in> set (feedbacks d)" and "reviewed f"
  with find_unique_key [OF assms, of f]
  show "deleteFeedback d (f_id f) =
      (DeleteFeedbackResponse False
         (''Feedback '' @ str_int (f_id f) @ '' has been reviewed and cannot be deleted''), d)"
    by (simp add: deleteFeedback_def Feedback_find_unique_def)
next
  fix f assume "f \<in> set (feedbacks d)" and "\<not> reviewed f"
  with find_unique_key [OF assms, of f]
  show "deleteFeedback d (f_id f) =
      (DeleteFeedbackResponse True (''Feedback '' @ str_int (f_id f) @ '' successfully deleted.''),
       d\<lparr>feedbacks := filter (\<lambda>g. f_id g \<noteq> f_id f) (feedbacks d)\<rparr>)"
    by (simp add: deleteFeedback_def Feedback_find_unique_def Feedback_delete_def)
next
  fix feedbackId msg d'
  assume del: "deleteFeedback d feedbackId = (DeleteFeedbackResponse True msg, d')"
  then obtain f where f: "Feedback_find_unique d feedbackId = Some f"
    by (cases "Feedback_find_unique d feedbackId") (auto simp: deleteFeedback_def)
  with del have "\<not> reviewed f"
    and "feedbacks d' = filter (\<lambda>g. f_id g \<noteq> feedbackId) (feedbacks d)"
    by (auto simp: deleteFeedback_def Feedback_delete_def split: if_splits)
  moreover from f have "f \<in> set (feedbacks d)" and "f_id f = feedbackId"
    using find_Some_mem [of "\<lambda>f. f_id f = feedbackId" "feedbacks d" f]
    by (simp_all add: Feedback_find_unique_def)
  ultimately show "\<exists>f \<in> set (feedbacks d). f_id f = feedbackId \<and> \<not> reviewed f \<and>
      feedbacks d' = filter (\<lambda>g. f_id g \<noteq> feedbackId) (feedbacks d)"
    by blast
qed

theorem deleteFeedback_reviewed_witness:
  "deleteFeedback sample_db 2 =
     (DeleteFeedbackResponse False ''Feedback 2 has been reviewed and cannot be deleted'',
      sample_db)"
proof -
  have ids: "distinct (map f_id (feedbacks sample_db))"
    by (simp add: sample_db_def)
  have row: "\<lparr>f_id = 2, userId = 2, emojiId = 2, content = ''fine'', createdAt = 300,
          reviewed = True\<rparr> \<in> set (feedbacks sample_db)"
    by (simp add: sample_db_def)
  have "str_int 2 = ''2''" by (simp add: str_int_def str_nat.simps)
  with deleteFeedback_reviewed [OF ids] row show ?thesis by fastforce
qed

subsection \<open>Users\<close>

text \<open>
  A userId that \<open>int\<close> refuses makes the handler raise before any lookup, and the
  store is unchanged. The code points 0x1C to 0x1F are no whitespace for \<open>int\<close>; 0xA0
  is.
\<close>

lemma deleteUser_not_an_int:
  "py_int userId' = None \<Longrightarrow>
   deleteUser d userId' = (Inl (ValueError ''invalid literal for int() with base 10''), d)"
  by (simp add: deleteUser_def)

lemma py_int_digit_limit:
  "int_max_str_digits < length (filter is_digit (strip s)) \<Longrightarrow> py_int s = None"
  by (cases "strip s") (simp_all add: py_int_def)

lemma deleteUser_refused_whitespace:
  "deleteUser sample_db [CHR 0x1C, CHR ''2''] =
     (Inl (ValueError ''invalid literal for int() with base 10''), sample_db)"
  by (simp add: deleteUser_def py_int_def strip_def is_space_def is_digit_def digit_val_def
      int_max_str_digits_def)

lemma py_int_examples:
  "py_int [CHR 0x1C, CHR ''2''] = None"
  "py_int [CHR ''2'', CHR 0x1F] = None"
  "py_int [CHR 0xA0, CHR ''2''] = Some 2"
  "py_int [CHR 0x09, CHR ''-'', CHR ''1'', CHR ''_'', CHR ''2'', CHR 0x0A] = Some (- 12)"
  "py_int ''1__2'' = None"
  "py_int ''+ 2'' = None"
  "py_int [] = None"
  by (simp_all add: py_int_def strip_def is_space_def is_digit_def digit_val_def
      int_max_str_digits_def)

text \<open>
  C7. When the given userId reads as the integer uid: if no user has that id, deleteUser
  answers 404 "User not found." and the store is unchanged; if the user found is not an
  ADMIN, it answers 403 (unauthorized) and the store is unchanged; if the user found is
  an ADMIN, it answers 200 and that user is gone from the store. A 200 answer is only
  ever given for a user that existed with the ADMIN role.
\<close>

theorem deleteUser_admin_only:
  assumes "py_int userId' = Some uid"
  shows "(User_find_unique d uid = None \<longrightarrow>
            deleteUser d userId' = (Inr (DeleteUserResponse ''User not found.'' 404), d)) \<and>
         (\<forall>u. User_find_unique d uid = Some u \<and> role u \<noteq> ADMIN \<longrightarrow>
            deleteUser d userId' =
              (Inr (DeleteUserResponse
                 ''Unauthorized access. Only admin users can delete accounts.'' 403), d)) \<and>
         (\<forall>u. User_find_unique d uid = Some u \<and> role u = ADMIN \<longrightarrow>
            deleteUser d userId' =
              (Inr (DeleteUserResponse ''User successfully deleted.'' 200),
               d\<lparr>users := filter (\<lambda>u. u_id u \<noteq> uid) (users d)\<rparr>) \<and>
            User_find_unique (snd (deleteUser d userId')) uid = None) \<and>
         (\<forall>msg d'. deleteUser d userId' = (Inr (DeleteUserResponse msg 200), d') \<longrightarrow>
            (\<exists>u. User_find_unique d uid = Some u \<and> role u = ADMIN))"
proof -
  have gone: "find (\<lambda>u. u_id u = uid) (filter (\<lambda>u. u_id u \<noteq> uid) us) = None"
    for us :: "User list"
    by (induction us) auto
  show ?thesis
    using assms gone
    by (auto simp: deleteUser_def User_delete_def User_find_unique_def split: option.splits)
qed

theorem deleteUser_admin_only_witness:
  "deleteUser sample_db ''1'' =
     (Inr (DeleteUserResponse
        ''Unauthorized access. Only admin users can delete accounts.'' 403), sample_db) \<and>
   deleteUser sample_db ''7'' = (Inr (DeleteUserResponse ''User not found.'' 404), sample_db) \<and>
   deleteUser sample_db ''2'' =
     (Inr (DeleteUserResponse ''User successfully deleted.'' 200),
      sample_db\<lparr>users := [\<lparr>u_id = 1, email = ''a@x.com'', password = ''wp'', role = USER\<rparr>]\<rparr>)"
proof -
  have p1: "py_int ''1'' = Some 1" and p7: "py_int ''7'' = Some 7" and p2: "py_int ''2'' = Some 2"
    by (simp_all add: py_int_def strip_def is_space_def is_digit_def digit_val_def
        int_max_str_digits_def)
  show ?thesis
    using deleteUser_admin_only [OF p1, of sample_db] deleteUser_admin_only [OF p7, of sample_db]
      deleteUser_admin_only [OF p2, of sample_db]
    by (simp add: User_find_unique_def sample_db_def)
qed

subsection \<open>Login\<close>

text \<open>
  A missing user and a wrong password are refused with the same ValueError. With the
  right password the token is computed, but the response is never built: the role of
  the user is no member of the enum that \<open>UserDetails.role\<close> is declared with, so the
  handler raises ValidationError for every user.
\<close>

lemma userLogin_rejects:
  "User_find_first d e = None \<Longrightarrow>
     userLogin v j d e p = Inl (ValueError ''Invalid email or password'')"
  "User_find_first d e = Some u \<Longrightarrow> \<not> v p (password u) \<Longrightarrow>
     userLogin v j d e p = Inl (ValueError ''Invalid email or password'')"
  by (simp_all add: userLogin_def)

lemma userLogin_never_returns: "userLogin v j d e p \<noteq> Inr r"
  by (simp add: userLogin_def UserDetails_init_def login_Role_members_def Let_def
      split: option.splits)

text \<open>
  C8. The failing run: user 1 of the sample store logs in with the right password, and
  userLogin raises ValidationError instead of returning the token with the user's
  details.
\<close>

theorem userLogin_valid_credentials_raise:
  "userLogin toy_verify toy_encode sample_db ''a@x.com'' ''pw'' =
     Inl (ValidationError ''1 validation error for UserDetails: role'')"
  by (simp add: userLogin_def toy_verify_def sample_db_def User_find_first_def
      UserDetails_init_def login_Role_members_def)

subsection \<open>History\<close>

lemma emoji_details_joined:
  "\<forall>f \<in> set fs. Emoji_find_by_id d (emojiId f) \<noteq> None \<Longrightarrow>
   \<exists>ds. emoji_details (map (\<lambda>f. (f, Emoji_find_by_id d (emojiId f))) fs) = Inr ds \<and>
        list_all2 (joined_emoji d) fs ds"
  by (induction fs) (auto simp: joined_emoji_def)

text \<open>
  C10. On a store where every feedback row of user 1 refers to an emoji, getHistory gives
  the same list for every request: the feedback rows whose userId is 1, newest first,
  each as the character and meaning of its emoji. The rows of other users play no part.
\<close>

theorem getHistory_user_1:
  assumes fk: "\<forall>f \<in> set (feedbacks d). userId f = 1 \<longrightarrow> Emoji_find_by_id d (emojiId f) \<noteq> None"
  shows "\<exists>recent.
           (\<forall>request. getHistory d request = Inr (HistoryResponse recent)) \<and>
           list_all2 (joined_emoji d)
             (newest_first (filter (\<lambda>f. userId f = 1) (feedbacks d))) recent \<and>
           sorted_wrt (\<lambda>a b. createdAt b \<le> createdAt a)
             (newest_first (filter (\<lambda>f. userId f = 1) (feedbacks d))) \<and>
           mset (newest_first (filter (\<lambda>f. userId f = 1) (feedbacks d)))
             = filter_mset (\<lambda>f. userId f = 1) (mset (feedbacks d))"
proof -
  let ?rows = "newest_first (filter (\<lambda>f. userId f = 1) (feedbacks d))"
  have "set ?rows = set (filter (\<lambda>f. userId f = 1) (feedbacks d))"
    by (metis newest_first_mset set_mset_mset)
  then have "\<forall>f \<in> set ?rows. Emoji_find_by_id d (emojiId f) \<noteq> None"
    using fk by simp
  from emoji_details_joined [OF this] obtain ds where
    "emoji_details (map (\<lambda>f. (f, Emoji_find_by_id d (emojiId f))) ?rows) = Inr ds"
    and "list_all2 (joined_emoji d) ?rows ds"
    by blast
  then show ?thesis
    using newest_first_sorted [of "filter (\<lambda>f. userId f = 1) (feedbacks d)"]
    by (auto simp: getHistory_def Feedback_find_many_of_user_def newest_first_mset)
qed

theorem getHistory_user_1_witness:
  "getHistory sample_db HistoryRequest =
     Inr (HistoryResponse [EmojiDetails ''<3'' ''red heart'', EmojiDetails '':)'' ''grinning face''])"
proof -
  have fk: "\<forall>f \<in> set (feedbacks sample_db).
      userId f = 1 \<longrightarrow> Emoji_find_by_id sample_db (emojiId f) \<noteq> None"
    by (simp add: sample_db_def Emoji_find_by_id_def)
  obtain recent where
    res: "getHistory sample_db HistoryRequest = Inr (HistoryResponse recent)"
    and rows: "list_all2 (joined_emoji sample_db)
       (newest_first (filter (\<lambda>f. userId f = 1) (feedbacks sample_db))) recent"
    using getHistory_user_1 [OF fk] by auto
  have "recent = [EmojiDetails ''<3'' ''red heart'', EmojiDetails '':)'' ''grinning face'']"
    using rows
    by (simp add: sample_db_def newest_first_def joined_emoji_def Emoji_find_by_id_def
        list_all2_Cons1)
  with res show ?thesis by simp
qed

subsection \<open>Status check\<close>

text \<open>
  C9. The status check asks the provider's status URL. It answers with the operational
  message exactly when the provider responded with status 200, with the degraded message
  for every other status, and with a degraded 503 response carrying the exception's text
  when the call raises; in every case it returns a response and raises nothing.
\<close>

theorem checkApiStatus_total:
  "(\<exists>resp. checkApiStatus provider request = Inr resp) \<and>
   (checkApiStatus provider request = Inr (GetApiStatusResponse 200 ''API is operational.'')
      \<longleftrightarrow> (\<exists>r. provider (Get ''https://console.groq.com/api/status'') = Responds r \<and> status_code r = 200)) \<and>
   (\<forall>r. provider (Get ''https://console.groq.com/api/status'') = Responds r \<and> status_code r \<noteq> 200
      \<longrightarrow> checkApiStatus provider request
            = Inr (GetApiStatusResponse (status_code r) ''API is experiencing issues.'')) \<and>
   (\<forall>u e. provider (Get ''https://console.groq.com/api/status'') = Raises u e
      \<longrightarrow> checkApiStatus provider request = Inr (GetApiStatusResponse 503 e))"
  by (auto simp: checkApiStatus_def Let_def split: http_result.splits)

theorem checkApiStatus_total_witness:
  "checkApiStatus (status_provider 200) GetApiStatusRequest
     = Inr (GetApiStatusResponse 200 ''API is operational.'') \<and>
   checkApiStatus (status_provider 500) GetApiStatusRequest
     = Inr (GetApiStatusResponse 500 ''API is experiencing issues.'') \<and>
   checkApiStatus unreachable_provider GetApiStatusRequest
     = Inr (GetApiStatusResponse 503 ''All connection attempts failed'')"
  using checkApiStatus_total [of "status_provider 500" GetApiStatusRequest]
        checkApiStatus_total [of "status_provider 200" GetApiStatusRequest]
        checkApiStatus_total [of unreachable_provider GetApiStatusRequest]
  by (simp add: status_provider_def unreachable_provider_def)

end
